theory Spec2Isabelle
  imports Main
begin

section \<open>Data model of main.go\<close>

text \<open>
  Go strings are byte sequences; a \<^typ>\<open>string\<close> is a list of 8-bit characters.
  An \<open>error\<close> value carries its message; the nil error is \<open>None\<close> of
  \<^typ>\<open>'a option\<close>.
\<close>

datatype error = Error (Error_msg: string)

text \<open>\<^verbatim>\<open>type Bird struct { Species string `json:"species"`; Description string `json:"description"` }\<close>\<close>

record Bird =
  Species :: string
  Description :: string

text \<open>
  A Go slice is either nil or a (possibly empty) sequence; the two differ for the caller
  and for \<^verbatim>\<open>json.Marshal\<close>. \<open>None\<close> is the nil slice.
\<close>

type_synonym 'a slice = "'a list option"

definition append_slice :: "'a slice \<Rightarrow> 'a \<Rightarrow> 'a slice" where
  "append_slice s x = (case s of None \<Rightarrow> Some [x] | Some xs \<Rightarrow> Some (xs @ [x]))"

section \<open>The net/http collaborators\<close>

text \<open>
  A request as the handlers read it: the method (read by \<^verbatim>\<open>http.Redirect\<close>) and the
  outcome of \<^verbatim>\<open>r.ParseForm()\<close>: an error, or the parsed \<^verbatim>\<open>r.Form\<close>, a map from a
  key to its values.
\<close>

type_synonym Values = "string \<rightharpoonup> string list"

record Request =
  Method :: string
  URL_Path :: string
  ParseForm :: "error + Values"

text \<open>\<^verbatim>\<open>Values.Get\<close>: the first value of the key, the empty string when there is none.\<close>

definition Values_Get :: "Values \<Rightarrow> string \<Rightarrow> string" where
  "Values_Get v key = (case v key of None \<Rightarrow> [] | Some [] \<Rightarrow> [] | Some (x # _) \<Rightarrow> x)"

text \<open>
  The \<^verbatim>\<open>http.ResponseWriter\<close>: the header map the handler edits, the status line once
  it has been written (with the headers as they were then), and the body bytes written
  so far.
\<close>

record ResponseWriter =
  rw_header :: "string \<rightharpoonup> string"
  rw_wrote :: "(nat \<times> (string \<rightharpoonup> string)) option"
  rw_body :: string

definition newResponseWriter :: ResponseWriter where
  "newResponseWriter = \<lparr>rw_header = Map.empty, rw_wrote = None, rw_body = []\<rparr>"

definition StatusOK :: nat where "StatusOK = 200"
definition StatusFound :: nat where "StatusFound = 302"
definition StatusInternalServerError :: nat where "StatusInternalServerError = 500"

text \<open>\<^verbatim>\<open>w.WriteHeader(code)\<close>: the first call fixes the status; a later one is ignored.\<close>

definition WriteHeader :: "ResponseWriter \<Rightarrow> nat \<Rightarrow> ResponseWriter" where
  "WriteHeader w code =
     (case rw_wrote w of
        None \<Rightarrow> w\<lparr>rw_wrote := Some (code, rw_header w)\<rparr>
      | Some _ \<Rightarrow> w)"

text \<open>\<^verbatim>\<open>w.Write(b)\<close>: writes the status 200 first if none was written, then the bytes.\<close>

definition Write :: "ResponseWriter \<Rightarrow> string \<Rightarrow> ResponseWriter" where
  "Write w b = (let w' = WriteHeader w StatusOK in w'\<lparr>rw_body := rw_body w' @ b\<rparr>)"

text \<open>
  \<^verbatim>\<open>fmt.Fprintf(w, format)\<close> with no operands and a format without verbs (the only use
  in the source): the format is written as it is.
\<close>

definition Fprintf :: "ResponseWriter \<Rightarrow> string \<Rightarrow> ResponseWriter" where
  "Fprintf w format = Write w format"

text \<open>What the client receives once the handler has returned: status 200 if none was written.\<close>

record Response =
  StatusCode :: nat
  RespHeader :: "string \<rightharpoonup> string"
  Body :: string

definition finish :: "ResponseWriter \<Rightarrow> Response" where
  "finish w =
     (case rw_wrote w of
        None \<Rightarrow> \<lparr>StatusCode = StatusOK, RespHeader = rw_header w, Body = rw_body w\<rparr>
      | Some (code, h) \<Rightarrow> \<lparr>StatusCode = code, RespHeader = h, Body = rw_body w\<rparr>)"

section \<open>Package-level state\<close>

text \<open>
  \<^verbatim>\<open>var birds []Bird\<close> and \<^verbatim>\<open>var store Store\<close>, and the console the handlers print to.
  The type of the installed Store value is a parameter: any implementation of the
  interface can be installed.
\<close>

record 's World =
  birds :: "Bird slice"
  store :: "'s option"
  stdout :: "string list"

type_synonym 's HandlerFunc = "ResponseWriter \<Rightarrow> Request \<Rightarrow> 's World \<Rightarrow> ResponseWriter \<times> 's World"

text \<open>The server hands the handler a fresh writer and sends what it leaves there.\<close>

definition serve :: "'s HandlerFunc \<Rightarrow> Request \<Rightarrow> 's World \<Rightarrow> Response \<times> 's World" where
  "serve h r g = (case h newResponseWriter r g of (w, g') \<Rightarrow> (finish w, g'))"

section \<open>The encoding/json collaborator\<close>

text \<open>
  \<^verbatim>\<open>utf8.DecodeRuneInString\<close>: the code point at the head of the bytes and its width.
  A byte that starts no well-formed UTF-8 sequence (a stray continuation byte, an
  overlong form, a surrogate, a value above U+10FFFF, a truncated sequence) gives
  \<open>(RuneError, 1)\<close>; the empty string gives \<open>(RuneError, 0)\<close>.
\<close>

definition RuneError :: nat where "RuneError = 0xFFFD"

definition cont_byte :: "char \<Rightarrow> bool" where
  "cont_byte c = (0x80 \<le> (of_char c :: nat) \<and> (of_char c :: nat) \<le> 0xBF)"

text \<open>The range accepted for the second byte, by the first byte (Go's \<^verbatim>\<open>acceptRanges\<close>).\<close>

definition accept_lo :: "nat \<Rightarrow> nat" where
  "accept_lo b0 = (if b0 = 0xE0 then 0xA0 else if b0 = 0xF0 then 0x90 else 0x80)"

definition accept_hi :: "nat \<Rightarrow> nat" where
  "accept_hi b0 = (if b0 = 0xED then 0x9F else if b0 = 0xF4 then 0x8F else 0xBF)"

definition second_ok :: "nat \<Rightarrow> char \<Rightarrow> bool" where
  "second_ok b0 c = (accept_lo b0 \<le> (of_char c :: nat) \<and> (of_char c :: nat) \<le> accept_hi b0)"

fun DecodeRuneInString :: "string \<Rightarrow> nat \<times> nat" where
  "DecodeRuneInString [] = (RuneError, 0)"
| "DecodeRuneInString (c0 # s) =
     (let b0 = (of_char c0 :: nat) in
      if b0 < 0x80 then (b0, 1)
      else if b0 < 0xC2 \<or> 0xF4 < b0 then (RuneError, 1)
      else if b0 < 0xE0 then
        (case s of
           c1 # _ \<Rightarrow>
             if second_ok b0 c1 then ((b0 mod 0x20) * 0x40 + of_char c1 mod 0x40, 2)
             else (RuneError, 1)
         | _ \<Rightarrow> (RuneError, 1))
      else if b0 < 0xF0 then
        (case s of
           c1 # c2 # _ \<Rightarrow>
             if second_ok b0 c1 \<and> cont_byte c2
             then ((b0 mod 0x10) * 0x1000 + (of_char c1 mod 0x40) * 0x40 + of_char c2 mod 0x40, 3)
             else (RuneError, 1)
         | _ \<Rightarrow> (RuneError, 1))
      else
        (case s of
           c1 # c2 # c3 # _ \<Rightarrow>
             if second_ok b0 c1 \<and> cont_byte c2 \<and> cont_byte c3
             then ((b0 mod 0x08) * 0x40000 + (of_char c1 mod 0x40) * 0x1000
                   + (of_char c2 mod 0x40) * 0x40 + of_char c3 mod 0x40, 4)
             else (RuneError, 1)
         | _ \<Rightarrow> (RuneError, 1)))"

definition backslash :: char where "backslash = CHR 0x5C"

definition hex :: string where "hex = ''0123456789abcdef''"

text \<open>
  Go's \<^verbatim>\<open>htmlSafeSet\<close>: the ASCII bytes that \<^verbatim>\<open>json.Marshal\<close> copies as they are. The
  control characters, the double quote, the backslash and (HTML escaping is on for
  \<^verbatim>\<open>Marshal\<close>) \<open><\<close>, \<open>>\<close> and \<open>&\<close> are not among them.
\<close>

definition htmlSafe :: "char \<Rightarrow> bool" where
  \<open>htmlSafe c = (0x20 \<le> (of_char c :: nat) \<and> (of_char c :: nat) < 0x80
     \<and> c \<noteq> CHR 0x22 \<and> c \<noteq> CHR ''&'' \<and> c \<noteq> CHR ''<'' \<and> c \<noteq> CHR ''>'' \<and> c \<noteq> backslash)\<close>

text \<open>
  The escape written for an ASCII byte outside \<open>htmlSafe\<close>. (The short forms for
  backspace and form feed are those of Go 1.22 and later; earlier releases write
  \<open>\u0008\<close> and \<open>\u000c\<close>, which read back as the same bytes.)
\<close>

definition escape_byte :: "char \<Rightarrow> string" where
  "escape_byte c =
     (if c = backslash \<or> c = CHR 0x22 then [backslash, c]
      else if c = CHR 0x08 then [backslash, CHR ''b'']
      else if c = CHR 0x0C then [backslash, CHR ''f'']
      else if c = CHR 0x0A then [backslash, CHR ''n'']
      else if c = CHR 0x0D then [backslash, CHR ''r'']
      else if c = CHR 0x09 then [backslash, CHR ''t'']
      else backslash # ''u00'' @ [hex ! (of_char c div 16), hex ! (of_char c mod 16)])"

text \<open>
  The body of the string encoder (\<^verbatim>\<open>appendString\<close> of encoding/json, between the
  quotes): safe ASCII and well-formed multi-byte sequences are copied, an ill-formed byte
  becomes the escape of U+FFFD, and U+2028 and U+2029 are escaped.
\<close>

function appendString :: "string \<Rightarrow> string" where
  "appendString [] = []"
| "appendString (c # s) =
     (if (of_char c :: nat) < 0x80 then
        (if htmlSafe c then c # appendString s else escape_byte c @ appendString s)
      else
        (case DecodeRuneInString (c # s) of (r, n) \<Rightarrow>
           if r = RuneError \<and> n = 1 then backslash # ''ufffd'' @ appendString s
           else if r = 0x2028 \<or> r = 0x2029
             then backslash # ''u202'' @ [hex ! (r mod 16)] @ appendString (drop n (c # s))
           else take n (c # s) @ appendString (drop n (c # s))))"
  by pat_completeness auto
termination
  apply (relation "measure length")
   apply simp_all
   apply (auto simp: Let_def split: list.splits if_splits)
  done

definition encodeString :: "string \<Rightarrow> string" where
  "encodeString s = CHR 0x22 # appendString s @ [CHR 0x22]"

text \<open>A Bird encodes as an object with its two tagged fields, in declaration order.\<close>

definition encodeBird :: "Bird \<Rightarrow> string" where
  \<open>encodeBird b = ''{"species":'' @ encodeString (Species b)
     @ '',"description":'' @ encodeString (Description b) @ ''}''\<close>

fun join :: "string list \<Rightarrow> string" where
  "join [] = []"
| "join [x] = x"
| "join (x # y # ys) = x @ '','' @ join (y # ys)"

text \<open>
  \<^verbatim>\<open>json.Marshal\<close> at the type \<^verbatim>\<open>[]Bird\<close>: a nil slice is \<open>null\<close>, any other an array.
  Strings and structs of strings have no value that the encoder rejects, so the result
  is never an error.
\<close>

definition json_Marshal :: "Bird slice \<Rightarrow> error + string" where
  "json_Marshal v =
     (case v of
        None \<Rightarrow> Inr ''null''
      | Some bs \<Rightarrow> Inr (''['' @ join (map encodeBird bs) @ '']''))"

section \<open>Handlers\<close>

text \<open>\<^verbatim>\<open>func handler(w, r) { fmt.Fprintf(w, "Hello World!") }\<close>\<close>

definition handler :: "'s HandlerFunc" where
  "handler w r g = (Fprintf w ''Hello World!'', g)"

text \<open>\<^verbatim>\<open>fmt.Println(fmt.Errorf("Error: %v", err))\<close>: one line on the console.\<close>

definition Println_Error :: "error \<Rightarrow> 's World \<Rightarrow> 's World" where
  "Println_Error err g = g\<lparr>stdout := stdout g @ [''Error: '' @ Error_msg err]\<rparr>"

text \<open>
  \<open>getBirdHandler\<close>, with the serializer it calls as a parameter: the list is set to the
  seed record, serialized, and either the error is printed and status 500 written, or
  the bytes are written. The store is not read (the call is commented out in the source).
\<close>

definition seed :: Bird where
  "seed = \<lparr>Species = ''Chimni'', Description = ''Found in India''\<rparr>"

definition getBirdHandler_with :: "(Bird slice \<Rightarrow> error + string) \<Rightarrow> 's HandlerFunc" where
  "getBirdHandler_with Marshal w r g =
     (let g1 = g\<lparr>birds := Some [seed]\<rparr> in
      case Marshal (birds g1) of
        Inl err \<Rightarrow> (WriteHeader w StatusInternalServerError, Println_Error err g1)
      | Inr birdListBytes \<Rightarrow> (Write w birdListBytes, g1))"

definition getBirdHandler :: "'s HandlerFunc" where
  "getBirdHandler = getBirdHandler_with json_Marshal"

text \<open>
  \<^verbatim>\<open>http.StatusText\<close>, for the codes of this program, and \<^verbatim>\<open>http.Redirect\<close> for a target
  that is an absolute, clean path without characters that HTML or URLs escape (as
  \<open>/assets/\<close> is): the Location header is the target, the status is written, and a GET
  request also gets a short HTML body.
\<close>

definition StatusText :: "nat \<Rightarrow> string" where
  "StatusText code =
     (if code = 200 then ''OK'' else if code = 302 then ''Found''
      else if code = 500 then ''Internal Server Error'' else [])"

definition Redirect :: "ResponseWriter \<Rightarrow> Request \<Rightarrow> string \<Rightarrow> nat \<Rightarrow> ResponseWriter" where
  \<open>Redirect w r url code =
     (let hadCT = (rw_header w ''Content-Type'' \<noteq> None);
          w1 = w\<lparr>rw_header := (rw_header w)(''Location'' \<mapsto> url)\<rparr>;
          w2 = (if \<not> hadCT \<and> (Method r = ''GET'' \<or> Method r = ''HEAD'')
                then w1\<lparr>rw_header := (rw_header w1)(''Content-Type'' \<mapsto> ''text/html; charset=utf-8'')\<rparr>
                else w1);
          w3 = WriteHeader w2 code
      in if \<not> hadCT \<and> Method r = ''GET''
         then Write w3 (''<a href="'' @ url @ ''">'' @ StatusText code @ ''</a>.'' @ [CHR 0x0A, CHR 0x0A])
         else w3)\<close>

text \<open>
  \<open>createBirdHandler\<close>: on a form error, print it and write status 500; otherwise read
  the two fields, append the bird to the package-level list and redirect. The store is
  not called (the call is commented out in the source).
\<close>

definition createBirdHandler :: "'s HandlerFunc" where
  "createBirdHandler w r g =
     (case ParseForm r of
        Inl err \<Rightarrow> (WriteHeader w StatusInternalServerError, Println_Error err g)
      | Inr form \<Rightarrow>
          (let bird = \<lparr>Species = Values_Get form ''species'',
                       Description = Values_Get form ''description''\<rparr>
           in (Redirect w r ''/assets/'' StatusFound, g\<lparr>birds := append_slice (birds g) bird\<rparr>)))"

section \<open>The Store interface and the relational store\<close>

text \<open>
  \<^verbatim>\<open>type Store interface { CreateBird(bird *Bird) error; GetBirds() ([]*Bird, error) }\<close>:
  the two methods of an implementation whose state has type \<open>'s\<close>. A method returns its
  results and the state it leaves.
\<close>

record 's Store =
  CreateBird :: "'s \<Rightarrow> Bird \<Rightarrow> error option \<times> 's"
  GetBirds :: "'s \<Rightarrow> (Bird slice \<times> error option) \<times> 's"

text \<open>
  The database behind \<^verbatim>\<open>*sql.DB\<close> is not part of the program: \<^verbatim>\<open>db.Query\<close> is a
  parameter, a function from the database state, the statement and its arguments to
  the outcome and the next state. An outcome is an error or a cursor. The cursor is the
  list of the rows for which \<^verbatim>\<open>rows.Next()\<close> is true, each with what \<^verbatim>\<open>rows.Scan\<close>
  gives for it: an error, or the two column values. (\<^verbatim>\<open>rows.Err()\<close> is never read by
  the program, so an iteration that stops early looks like one that ends.)
\<close>

type_synonym Row = "string \<times> string"
type_synonym Rows = "(error + Row) list"
type_synonym 'db Query = "'db \<Rightarrow> string \<Rightarrow> string list \<Rightarrow> (error + Rows) \<times> 'db"

record 'db dbStore =
  db :: 'db

definition insert_sql :: string where
  "insert_sql = ''INSERT INTO birds(species, description) VALUES ($1,$2)''"

definition select_sql :: string where
  "select_sql = ''SELECT species, description from birds''"

text \<open>\<open>dbStore.CreateBird\<close>: one insert with the two fields as arguments; its error is returned.\<close>

definition dbStore_CreateBird :: "'db Query \<Rightarrow> 'db dbStore \<Rightarrow> Bird \<Rightarrow> error option \<times> 'db dbStore" where
  "dbStore_CreateBird query st bird =
     (case query (db st) insert_sql [Species bird, Description bird] of
        (Inl err, d) \<Rightarrow> (Some err, st\<lparr>db := d\<rparr>)
      | (Inr _, d) \<Rightarrow> (None, st\<lparr>db := d\<rparr>))"

text \<open>
  The loop of \<open>dbStore.GetBirds\<close> over the cursor, with the slice built so far: a scan
  error returns nil and the error at once, a scanned row is appended.
\<close>

fun scan_rows :: "Rows \<Rightarrow> Bird list \<Rightarrow> Bird slice \<times> error option" where
  "scan_rows [] acc = (Some acc, None)"
| "scan_rows (Inl err # rest) acc = (None, Some err)"
| "scan_rows (Inr (s, d) # rest) acc = scan_rows rest (acc @ [\<lparr>Species = s, Description = d\<rparr>])"

text \<open>\<open>dbStore.GetBirds\<close>: a failed query returns nil and the error; otherwise the loop runs
  from the empty (non-nil) slice.\<close>

definition dbStore_GetBirds :: "'db Query \<Rightarrow> 'db dbStore \<Rightarrow> (Bird slice \<times> error option) \<times> 'db dbStore" where
  "dbStore_GetBirds query st =
     (case query (db st) select_sql [] of
        (Inl err, d) \<Rightarrow> ((None, Some err), st\<lparr>db := d\<rparr>)
      | (Inr rows, d) \<Rightarrow> (scan_rows rows [], st\<lparr>db := d\<rparr>))"

definition dbStore_Store :: "'db Query \<Rightarrow> 'db dbStore Store" where
  "dbStore_Store query = \<lparr>CreateBird = dbStore_CreateBird query, GetBirds = dbStore_GetBirds query\<rparr>"

text \<open>
  \<^verbatim>\<open>func InitStore(s Store) { store = s }\<close>: the argument is an interface value, so
  it may be nil (\<open>None\<close>). The program itself never calls it: \<open>store\<close> is nil when the
  handlers run under \<open>main\<close>.
\<close>

definition InitStore :: "'s option \<Rightarrow> 's World \<Rightarrow> 's World" where
  "InitStore s g = g\<lparr>store := s\<rparr>"

text \<open>
  A database for examples: one table kept as the list of its rows, in which the insert
  statement adds a row at the end, the select statement reads every row back without
  error, and any other statement fails.
\<close>

definition table_query :: "Row list Query" where
  "table_query t q args =
     (if q = insert_sql then
        (case args of
           [s, d] \<Rightarrow> (Inr [], t @ [(s, d)])
         | _ \<Rightarrow> (Inl (Error ''wrong number of arguments''), t))
      else if q = select_sql then (Inr (map Inr t), t)
      else (Inl (Error ''unknown statement''), t))"

text \<open>
  A second one that returns the newest row first (the select of the source has no
  ORDER BY, so the order is the database's choice).
\<close>

definition stack_query :: "Row list Query" where
  "stack_query t q args =
     (if q = insert_sql then
        (case args of
           [s, d] \<Rightarrow> (Inr [], (s, d) # t)
         | _ \<Rightarrow> (Inl (Error ''wrong number of arguments''), t))
      else if q = select_sql then (Inr (map Inr t), t)
      else (Inl (Error ''unknown statement''), t))"

section \<open>The in-memory list\<close>

text \<open>
  The in-memory variant is the package-level list \<open>birds\<close> itself: \<open>createBirdHandler\<close>
  appends to it and \<open>getBirdHandler\<close> resets and reads it. The elements of a slice (none
  for the nil slice), the bird that \<open>createBirdHandler\<close> builds from a parsed form, and a
  run of requests served one after the other by one handler.
\<close>

definition elems :: "'a slice \<Rightarrow> 'a list" where
  "elems s = (case s of None \<Rightarrow> [] | Some xs \<Rightarrow> xs)"

definition form_bird :: "Values \<Rightarrow> Bird" where
  "form_bird form = \<lparr>Species = Values_Get form ''species'',
                      Description = Values_Get form ''description''\<rparr>"

fun serve_all :: "'s HandlerFunc \<Rightarrow> Request list \<Rightarrow> 's World \<Rightarrow> 's World" where
  "serve_all h [] g = g"
| "serve_all h (r # rs) g = serve_all h rs (snd (serve h r g))"

section \<open>Reading the JSON back\<close>

text \<open>
  The program only writes JSON; a client reads it. The reader is encoding/json's own
  \<^verbatim>\<open>Unmarshal\<close> on texts of the shape \<open>encodeBird\<close> writes: an object with the two
  members in order and no white space. \<open>None\<close> on any other text says that the text is
  outside this model, not that Go rejects it.
\<close>

text \<open>\<^verbatim>\<open>utf8.EncodeRune\<close>: surrogates and values above U+10FFFF are written as U+FFFD.\<close>

definition EncodeRune :: "nat \<Rightarrow> string" where
  "EncodeRune r =
     (if r < 0x80 then [char_of r]
      else if r < 0x800 then [char_of (0xC0 + r div 0x40), char_of (0x80 + r mod 0x40)]
      else if 0x10FFFF < r \<or> (0xD800 \<le> r \<and> r \<le> 0xDFFF) then [CHR 0xEF, CHR 0xBF, CHR 0xBD]
      else if r < 0x10000 then
        [char_of (0xE0 + r div 0x1000), char_of (0x80 + r div 0x40 mod 0x40),
         char_of (0x80 + r mod 0x40)]
      else
        [char_of (0xF0 + r div 0x40000), char_of (0x80 + r div 0x1000 mod 0x40),
         char_of (0x80 + r div 0x40 mod 0x40), char_of (0x80 + r mod 0x40)])"

text \<open>A hexadecimal digit, and \<^verbatim>\<open>getu4\<close>: the value of a \<open>\uXXXX\<close> escape at the head of the text.\<close>

definition hexval :: "char \<Rightarrow> nat option" where
  "hexval c =
     (let b = (of_char c :: nat) in
      if 0x30 \<le> b \<and> b \<le> 0x39 then Some (b - 0x30)
      else if 0x61 \<le> b \<and> b \<le> 0x66 then Some (b - 0x61 + 10)
      else if 0x41 \<le> b \<and> b \<le> 0x46 then Some (b - 0x41 + 10)
      else None)"

fun getu4 :: "string \<Rightarrow> nat option" where
  "getu4 (b # u # h1 # h2 # h3 # h4 # _) =
     (if b = backslash \<and> u = CHR ''u'' then
        (case (hexval h1, hexval h2, hexval h3, hexval h4) of
           (Some d1, Some d2, Some d3, Some d4) \<Rightarrow> Some (((d1 * 16 + d2) * 16 + d3) * 16 + d4)
         | _ \<Rightarrow> None)
      else None)"
| "getu4 _ = None"

text \<open>\<^verbatim>\<open>utf16.IsSurrogate\<close> and \<^verbatim>\<open>utf16.DecodeRune\<close> (a missing second escape gives U+FFFD).\<close>

definition IsSurrogate :: "nat \<Rightarrow> bool" where
  "IsSurrogate r = (0xD800 \<le> r \<and> r < 0xE000)"

definition utf16_DecodeRune :: "nat \<Rightarrow> nat option \<Rightarrow> nat" where
  "utf16_DecodeRune r1 r2 =
     (case r2 of
        Some r2' \<Rightarrow>
          if 0xD800 \<le> r1 \<and> r1 < 0xDC00 \<and> 0xDC00 \<le> r2' \<and> r2' < 0xE000
          then (r1 - 0xD800) * 0x400 + (r2' - 0xDC00) + 0x10000
          else RuneError
      | None \<Rightarrow> RuneError)"

text \<open>The bytes decoded so far go in front of what the rest of the literal decodes to.\<close>

definition emit :: "string \<Rightarrow> (string \<times> string) option \<Rightarrow> (string \<times> string) option" where
  "emit p res = (case res of None \<Rightarrow> None | Some (out, rest) \<Rightarrow> Some (p @ out, rest))"

text \<open>
  The string literal after its opening quote (the scanner's string states with
  \<^verbatim>\<open>unquote\<close>): the decoded bytes up to the closing quote, and the text after it. An
  escape is one of \<open>" \ / b f n r t u\<close>; a raw control character, a bad escape or a
  missing closing quote fails. Bytes outside ASCII are decoded and written again, so an
  ill-formed byte becomes U+FFFD.
\<close>

function unquote_to :: "string \<Rightarrow> (string \<times> string) option" where
  "unquote_to [] = None"
| "unquote_to (c # s) =
     (if c = CHR 0x22 then Some ([], s)
      else if c = backslash then
        (case s of
           [] \<Rightarrow> None
         | e # s' \<Rightarrow>
             if e = CHR 0x22 \<or> e = backslash \<or> e = CHR ''/'' then emit [e] (unquote_to s')
             else if e = CHR ''b'' then emit [CHR 0x08] (unquote_to s')
             else if e = CHR ''f'' then emit [CHR 0x0C] (unquote_to s')
             else if e = CHR ''n'' then emit [CHR 0x0A] (unquote_to s')
             else if e = CHR ''r'' then emit [CHR 0x0D] (unquote_to s')
             else if e = CHR ''t'' then emit [CHR 0x09] (unquote_to s')
             else if e = CHR ''u'' then
               (case getu4 (c # s) of
                  None \<Rightarrow> None
                | Some rr \<Rightarrow>
                    if IsSurrogate rr then
                      (let dec = utf16_DecodeRune rr (getu4 (drop 5 s)) in
                       if dec \<noteq> RuneError then emit (EncodeRune dec) (unquote_to (drop 11 s))
                       else emit (EncodeRune RuneError) (unquote_to (drop 5 s)))
                    else emit (EncodeRune rr) (unquote_to (drop 5 s)))
             else None)
      else if (of_char c :: nat) < 0x20 then None
      else if (of_char c :: nat) < 0x80 then emit [c] (unquote_to s)
      else
        (case DecodeRuneInString (c # s) of (rr, n) \<Rightarrow>
           emit (EncodeRune rr) (unquote_to (drop n (c # s)))))"
  by pat_completeness auto
termination
  apply (relation "measure length")
   apply simp_all
   apply (auto simp: Let_def split: list.splits if_splits)
  done

definition unquote :: "string \<Rightarrow> (string \<times> string) option" where
  "unquote s = (case s of [] \<Rightarrow> None | c # s' \<Rightarrow> if c = CHR 0x22 then unquote_to s' else None)"

text \<open>The text after a given prefix, if the text starts with it.\<close>

fun expect :: "string \<Rightarrow> string \<Rightarrow> string option" where
  "expect [] s = Some s"
| "expect (p # ps) [] = None"
| "expect (p # ps) (c # s) = (if p = c then expect ps s else None)"

definition unmarshalBird :: "string \<Rightarrow> Bird option" where
  \<open>unmarshalBird text =
     (case expect ''{"species":'' text of None \<Rightarrow> None | Some t1 \<Rightarrow>
      case unquote t1 of None \<Rightarrow> None | Some (sp, t2) \<Rightarrow>
      case expect '',"description":'' t2 of None \<Rightarrow> None | Some t3 \<Rightarrow>
      case unquote t3 of None \<Rightarrow> None | Some (de, t4) \<Rightarrow>
      if t4 = ''}'' then Some \<lparr>Species = sp, Description = de\<rparr> else None)\<close>

text \<open>\<^verbatim>\<open>utf8.ValidString\<close>: every byte belongs to a well-formed sequence.\<close>

function ValidString :: "string \<Rightarrow> bool" where
  "ValidString [] = True"
| "ValidString (c # s) =
     (case DecodeRuneInString (c # s) of (r, n) \<Rightarrow>
        \<not> (r = RuneError \<and> n = 1) \<and> ValidString (drop n (c # s)))"
  by pat_completeness auto
termination
  apply (relation "measure length")
   apply simp_all
   apply (auto simp: Let_def split: list.splits if_splits)
  done

section \<open>Example inputs\<close>

text \<open>The record of the spec's examples, and form requests that carry it.\<close>

definition crow :: Bird where
  "crow = \<lparr>Species = ''Crow'', Description = ''Black bird''\<rparr>"

definition crow_form :: Values where
  "crow_form = [''species'' \<mapsto> [''Crow''], ''description'' \<mapsto> [''Black bird'']]"

definition crow_request :: Request where
  "crow_request = \<lparr>Method = ''POST'', URL_Path = ''/bird'', ParseForm = Inr crow_form\<rparr>"

text \<open>A form without a description, and a request whose form does not parse.\<close>

definition species_only_request :: Request where
  "species_only_request = \<lparr>Method = ''POST'', URL_Path = ''/bird'', ParseForm = Inr [''species'' \<mapsto> [''Crow'']]\<rparr>"

definition bad_request :: Request where
  "bad_request = \<lparr>Method = ''POST'', URL_Path = ''/bird'', ParseForm = Inl (Error ''invalid URL escape'')\<rparr>"

definition get_request :: Request where
  "get_request = \<lparr>Method = ''GET'', URL_Path = ''/bird'', ParseForm = Inr Map.empty\<rparr>"

text \<open>A package state with a relational store over the empty example table installed.\<close>

definition world0 :: "Row list dbStore World" where
  "world0 = \<lparr>birds = None, store = Some \<lparr>db = []\<rparr>, stdout = []\<rparr>"

text \<open>The package state as \<open>main\<close> has it: no list yet and no store installed.\<close>

definition world_nil :: "Row list dbStore World" where
  "world_nil = \<lparr>birds = None, store = None, stdout = []\<rparr>"

text \<open>
  A serializer that fails, and databases whose statements fail, whose statements succeed
  without ever returning a row, and whose second row does not scan.
\<close>

definition failing_Marshal :: "Bird slice \<Rightarrow> error + string" where
  "failing_Marshal v = Inl (Error ''json: unsupported value'')"

definition failing_query :: "unit Query" where
  "failing_query d q args = (Inl (Error ''pq: relation birds does not exist''), d)"

definition silent_query :: "unit Query" where
  "silent_query d q args = (Inr [], d)"

definition scan_error_query :: "unit Query" where
  "scan_error_query d q args =
     (Inr [Inr (''Crow'', ''Black bird''), Inl (Error ''converting NULL to string is unsupported''),
           Inr (''Chimni'', ''Found in India'')], d)"

text \<open>A bird whose species is the single byte 0xFF, which is not well-formed UTF-8
  (the form value \<open>species=%FF\<close> gives it), and the bird with both fields empty.\<close>

definition ill_formed_bird :: Bird where
  "ill_formed_bird = \<lparr>Species = [CHR 0xFF], Description = []\<rparr>"

definition empty_bird :: Bird where
  "empty_bird = \<lparr>Species = [], Description = []\<rparr>"

section \<open>Properties\<close>

subsection \<open>Responses on a fresh writer\<close>

lemma finish_Write_new:
  "finish (Write newResponseWriter b) = \<lparr>StatusCode = 200, RespHeader = Map.empty, Body = b\<rparr>"
  by (simp add: finish_def Write_def WriteHeader_def newResponseWriter_def StatusOK_def Let_def)

lemma finish_WriteHeader_new:
  "finish (WriteHeader newResponseWriter code) = \<lparr>StatusCode = code, RespHeader = Map.empty, Body = []\<rparr>"
  by (simp add: finish_def WriteHeader_def newResponseWriter_def)

lemma finish_Redirect_new:
  "StatusCode (finish (Redirect newResponseWriter r url code)) = code
   \<and> RespHeader (finish (Redirect newResponseWriter r url code)) ''Location'' = Some url"
  by (simp add: finish_def Redirect_def WriteHeader_def Write_def newResponseWriter_def Let_def)

lemma crow_fields:
  "Values_Get crow_form ''species'' = ''Crow'' \<and> Values_Get crow_form ''description'' = ''Black bird''"
  by (simp add: Values_Get_def crow_form_def)

lemma json_Marshal_seed:
  \<open>json_Marshal (Some [seed]) = Inr ''[{"species":"Chimni","description":"Found in India"}]''\<close>
  by (simp add: json_Marshal_def seed_def encodeBird_def encodeString_def htmlSafe_def backslash_def)

subsection \<open>The hello handler\<close>

text \<open>
  C8. For every request and every package state, the hello handler answers with status
  200 and the body exactly \<open>Hello World!\<close>, and leaves the package state as it was.
\<close>

theorem hello_response:
  "StatusCode (fst (serve handler r g)) = 200
   \<and> Body (fst (serve handler r g)) = ''Hello World!''
   \<and> snd (serve handler r g) = g"
  by (simp add: serve_def handler_def Fprintf_def finish_Write_new)

subsection \<open>Creating a bird\<close>

text \<open>
  C1, as the code has it. For every request whose form parses, the handler builds the
  bird from the form values of \<open>species\<close> and \<open>description\<close> (the empty string for a key
  without a value), appends it to the package-level list \<open>birds\<close>, leaves the installed
  store as it was, and answers 302 with the Location \<open>/assets/\<close>.
\<close>

theorem createBird_appends:
  "ParseForm r = Inr form \<Longrightarrow>
     birds (snd (serve createBirdHandler r g))
       = append_slice (birds g) \<lparr>Species = Values_Get form ''species'', Description = Values_Get form ''description''\<rparr>
   \<and> store (snd (serve createBirdHandler r g)) = store g
   \<and> StatusCode (fst (serve createBirdHandler r g)) = 302
   \<and> RespHeader (fst (serve createBirdHandler r g)) ''Location'' = Some ''/assets/''
   \<and> (\<forall>k. form k = None \<longrightarrow> Values_Get form k = [])"
  by (simp add: serve_def createBirdHandler_def finish_Redirect_new StatusFound_def Let_def Values_Get_def)

theorem createBird_appends_witness:
  "ParseForm species_only_request = Inr [''species'' \<mapsto> [''Crow'']]
   \<and> [''species'' \<mapsto> [''Crow'']] ''description'' = None
   \<and> Values_Get [''species'' \<mapsto> [''Crow'']] ''description'' = []
   \<and> birds (snd (serve createBirdHandler species_only_request world0))
       = Some [\<lparr>Species = ''Crow'', Description = []\<rparr>]
   \<and> store (snd (serve createBirdHandler species_only_request world0)) = Some \<lparr>db = []\<rparr>
   \<and> StatusCode (fst (serve createBirdHandler species_only_request world0)) = 302
   \<and> RespHeader (fst (serve createBirdHandler species_only_request world0)) ''Location'' = Some ''/assets/''"
proof -
  have p: "ParseForm species_only_request = Inr [''species'' \<mapsto> [''Crow'']]"
    by (simp add: species_only_request_def)
  have v: "Values_Get [''species'' \<mapsto> [''Crow'']] ''species'' = ''Crow''"
    "Values_Get [''species'' \<mapsto> [''Crow'']] ''description'' = []"
    by (simp_all add: Values_Get_def)
  show ?thesis
    using createBird_appends [OF p, of world0] p
    by (simp add: v world0_def append_slice_def)
qed

text \<open>
  C1, as stated, at the spec's example form: the request is answered 302 and the bird is
  in the package-level list, but the installed store is the one that was there before,
  and reading it back gives no bird: nothing was persisted through the Store.
\<close>

theorem createBird_store_counterexample:
  "ParseForm crow_request = Inr crow_form
   \<and> store (snd (serve createBirdHandler crow_request world0)) = Some \<lparr>db = []\<rparr>
   \<and> fst (dbStore_GetBirds table_query \<lparr>db = []\<rparr>) = (Some [], None)
   \<and> StatusCode (fst (serve createBirdHandler crow_request world0)) = 302
   \<and> birds (snd (serve createBirdHandler crow_request world0)) = Some [crow]"
  by (simp add: serve_def createBirdHandler_def finish_Redirect_new StatusFound_def crow_request_def crow_fields world0_def
      append_slice_def crow_def dbStore_GetBirds_def table_query_def select_sql_def insert_sql_def)

text \<open>
  C5. For every request whose form does not parse, the handler answers 500 and leaves
  both the package-level list and the installed store as they were.
\<close>

theorem createBird_parse_error:
  "ParseForm r = Inl err \<Longrightarrow>
     StatusCode (fst (serve createBirdHandler r g)) = 500
   \<and> birds (snd (serve createBirdHandler r g)) = birds g
   \<and> store (snd (serve createBirdHandler r g)) = store g"
  by (simp add: serve_def createBirdHandler_def finish_WriteHeader_new
      StatusInternalServerError_def Println_Error_def)

theorem createBird_parse_error_witness:
  "ParseForm bad_request = Inl (Error ''invalid URL escape'')
   \<and> StatusCode (fst (serve createBirdHandler bad_request world0)) = 500
   \<and> birds (snd (serve createBirdHandler bad_request world0)) = None
   \<and> store (snd (serve createBirdHandler bad_request world0)) = Some \<lparr>db = []\<rparr>"
proof -
  have p: "ParseForm bad_request = Inl (Error ''invalid URL escape'')"
    by (simp add: bad_request_def)
  show ?thesis
    using createBird_parse_error [OF p, of world0] p by (simp add: world0_def)
qed

subsection \<open>Listing the birds\<close>

text \<open>
  C2. For every request, package state and serializer, the handler leaves the
  package-level list holding exactly the seed record; when the serializer succeeds on
  that list the answer is 200 with the serialized bytes as body, and when it fails the
  answer is 500 with an empty body.
\<close>

theorem getBird_overwrites_then_serializes:
  "birds (snd (serve (getBirdHandler_with Marshal) r g)) = Some [seed]
   \<and> (\<forall>bytes. Marshal (Some [seed]) = Inr bytes \<longrightarrow>
         StatusCode (fst (serve (getBirdHandler_with Marshal) r g)) = 200
       \<and> Body (fst (serve (getBirdHandler_with Marshal) r g)) = bytes)
   \<and> (\<forall>err. Marshal (Some [seed]) = Inl err \<longrightarrow>
         StatusCode (fst (serve (getBirdHandler_with Marshal) r g)) = 500
       \<and> Body (fst (serve (getBirdHandler_with Marshal) r g)) = [])"
  by (cases "Marshal (Some [seed])")
     (simp_all add: serve_def getBirdHandler_with_def finish_WriteHeader_new finish_Write_new
        StatusInternalServerError_def Println_Error_def)

theorem getBird_overwrites_then_serializes_witness:
  \<open>json_Marshal (Some [seed]) = Inr ''[{"species":"Chimni","description":"Found in India"}]''
   \<and> StatusCode (fst (serve (getBirdHandler_with json_Marshal) get_request world0)) = 200
   \<and> Body (fst (serve (getBirdHandler_with json_Marshal) get_request world0))
       = ''[{"species":"Chimni","description":"Found in India"}]''
   \<and> failing_Marshal (Some [seed]) = Inl (Error ''json: unsupported value'')
   \<and> StatusCode (fst (serve (getBirdHandler_with failing_Marshal) get_request world0)) = 500
   \<and> Body (fst (serve (getBirdHandler_with failing_Marshal) get_request world0)) = []
   \<and> birds (snd (serve (getBirdHandler_with failing_Marshal) get_request world0)) = Some [seed]\<close>
proof -
  have f: "failing_Marshal (Some [seed]) = Inl (Error ''json: unsupported value'')"
    by (simp add: failing_Marshal_def)
  show ?thesis
    using getBird_overwrites_then_serializes [of json_Marshal get_request world0]
      getBird_overwrites_then_serializes [of failing_Marshal get_request world0]
      json_Marshal_seed f
    by simp
qed

text \<open>
  C10. \<open>json.Marshal\<close> succeeds on every list of birds, so with the list reset to the seed
  record every answer of the handler is status 200 with the JSON array of that one
  record as its body: the status 500 branch is never taken.
\<close>

theorem getBird_always_200:
  \<open>(\<forall>v. \<exists>bytes. json_Marshal v = Inr bytes)
   \<and> StatusCode (fst (serve getBirdHandler r g)) = 200
   \<and> Body (fst (serve getBirdHandler r g)) = ''[{"species":"Chimni","description":"Found in India"}]''\<close>
proof -
  have "\<exists>bytes. json_Marshal v = Inr bytes" for v
    by (simp add: json_Marshal_def split: option.split)
  moreover have \<open>fst (serve getBirdHandler r g)
      = \<lparr>StatusCode = 200, RespHeader = Map.empty,
         Body = ''[{"species":"Chimni","description":"Found in India"}]''\<rparr>\<close>
    by (simp add: serve_def getBirdHandler_def getBirdHandler_with_def json_Marshal_seed finish_Write_new)
  ultimately show ?thesis by simp
qed

subsection \<open>The in-memory list\<close>

lemma createBird_birds:
  "ParseForm r = Inr form \<Longrightarrow>
     birds (snd (serve createBirdHandler r g)) = Some (elems (birds g) @ [form_bird form])"
  by (simp add: serve_def createBirdHandler_def form_bird_def append_slice_def elems_def
      split: option.split)

lemma serve_all_createBird:
  "map ParseForm rs = map Inr forms \<Longrightarrow>
     elems (birds (serve_all createBirdHandler rs g)) = elems (birds g) @ map form_bird forms"
proof (induction rs arbitrary: g forms)
  case Nil
  then show ?case by simp
next
  case (Cons r rs)
  then obtain form rest where f: "forms = form # rest" "ParseForm r = Inr form"
    "map ParseForm rs = map Inr rest"
    by (cases forms) auto
  show ?case
    using Cons.IH [OF f(3), of "snd (serve createBirdHandler r g)"]
    by (simp add: f(1) createBird_birds [OF f(2)] elems_def)
qed

lemma getBird_seed:
  \<open>birds (snd (serve getBirdHandler r g)) = Some [seed]
   \<and> Body (fst (serve getBirdHandler r g)) = ''[{"species":"Chimni","description":"Found in India"}]''\<close>
  by (simp add: serve_def getBirdHandler_def getBirdHandler_with_def json_Marshal_seed finish_Write_new)

lemma form_bird_crow: "form_bird crow_form = crow"
  by (simp add: form_bird_def crow_fields crow_def)

text \<open>
  C3, as the code has it. The in-memory variant is the package-level list. A request
  carrying the Crow form leaves the list with the records already there followed by that
  exact record; a run of requests whose forms all parse leaves it with the records
  already there followed by the new ones in the order of the requests. Reading through
  \<open>getBirdHandler\<close> returns none of them: whatever was created before, it leaves the
  list holding the seed record alone and answers with that record.
\<close>

theorem posts_in_order:
  \<open>(ParseForm r = Inr crow_form \<longrightarrow>
      birds (snd (serve createBirdHandler r g)) = Some (elems (birds g) @ [crow]))
   \<and> (map ParseForm rs = map Inr forms \<longrightarrow>
      elems (birds (serve_all createBirdHandler rs g)) = elems (birds g) @ map form_bird forms
      \<and> birds (snd (serve getBirdHandler r' (serve_all createBirdHandler rs g))) = Some [seed]
      \<and> Body (fst (serve getBirdHandler r' (serve_all createBirdHandler rs g)))
          = ''[{"species":"Chimni","description":"Found in India"}]'')\<close>
  using createBird_birds [of r crow_form g] serve_all_createBird [of rs forms g]
    getBird_seed [of r' "serve_all createBirdHandler rs g"]
  by (simp add: form_bird_crow)

theorem posts_in_order_witness:
  \<open>ParseForm crow_request = Inr crow_form
   \<and> birds (snd (serve createBirdHandler crow_request world_nil)) = Some [crow]
   \<and> map ParseForm [species_only_request, crow_request] = map Inr [[''species'' \<mapsto> [''Crow'']], crow_form]
   \<and> elems (birds (serve_all createBirdHandler [species_only_request, crow_request] world_nil))
       = [\<lparr>Species = ''Crow'', Description = []\<rparr>, crow]
   \<and> birds (snd (serve getBirdHandler get_request
         (serve_all createBirdHandler [species_only_request, crow_request] world_nil))) = Some [seed]\<close>
proof -
  have p: "ParseForm crow_request = Inr crow_form"
    by (simp add: crow_request_def)
  have q: "map ParseForm [species_only_request, crow_request]
      = map Inr [[''species'' \<mapsto> [''Crow'']], crow_form]"
    by (simp add: species_only_request_def crow_request_def)
  have b: "form_bird [''species'' \<mapsto> [''Crow'']] = \<lparr>Species = ''Crow'', Description = []\<rparr>"
    by (simp add: form_bird_def Values_Get_def)
  have e: "elems (birds world_nil) = []"
    by (simp add: world_nil_def elems_def)
  show ?thesis
    using posts_in_order [of crow_request world_nil "[species_only_request, crow_request]"
        "[[''species'' \<mapsto> [''Crow'']], crow_form]" get_request] p q
    by (simp add: b e form_bird_crow)
qed

text \<open>
  C3, as stated, at the spec's own record: after the Crow record is created, the
  following read leaves and returns the seed record alone, and the Crow record is not
  in it.
\<close>

theorem post_then_get_loses_crow:
  \<open>birds (snd (serve createBirdHandler crow_request world_nil)) = Some [crow]
   \<and> birds (snd (serve getBirdHandler get_request (snd (serve createBirdHandler crow_request world_nil))))
       = Some [seed]
   \<and> Body (fst (serve getBirdHandler get_request (snd (serve createBirdHandler crow_request world_nil))))
       = ''[{"species":"Chimni","description":"Found in India"}]''
   \<and> crow \<notin> set [seed]\<close>
proof -
  have p: "ParseForm crow_request = Inr crow_form"
    by (simp add: crow_request_def)
  have "birds (snd (serve createBirdHandler crow_request world_nil)) = Some [crow]"
    using createBird_birds [OF p, of world_nil]
    by (simp add: form_bird_crow world_nil_def elems_def)
  moreover have "crow \<notin> set [seed]"
    by (simp add: crow_def seed_def)
  ultimately show ?thesis
    using getBird_seed [of get_request "snd (serve createBirdHandler crow_request world_nil)"]
    by simp
qed

subsection \<open>The relational store\<close>

lemma scan_rows_good: "scan_rows (map Inr good @ rest) acc = scan_rows rest (acc @ map (\<lambda>(s, d). \<lparr>Species = s, Description = d\<rparr>) good)"
  by (induction good arbitrary: acc) auto

lemma scan_rows_error: "snd (scan_rows rows acc) \<noteq> None \<Longrightarrow> fst (scan_rows rows acc) = None"
  by (induction rows acc rule: scan_rows.induct) auto


text \<open>
  C4. When the query fails, \<open>dbStore.GetBirds\<close> returns the nil slice and the query's
  error. When a row fails to scan after any number of rows that scanned, it returns the
  nil slice and that scan error. Whenever it returns an error at all, the slice it
  returns is nil.
\<close>

theorem dbStore_GetBirds_no_partial:
  "(query (db st) select_sql [] = (Inl err, d) \<longrightarrow>
      fst (dbStore_GetBirds query st) = (None, Some err))
   \<and> (query (db st) select_sql [] = (Inr (map Inr good @ Inl err # rest), d) \<longrightarrow>
      fst (dbStore_GetBirds query st) = (None, Some err))
   \<and> (snd (fst (dbStore_GetBirds query st)) \<noteq> None \<longrightarrow>
      fst (fst (dbStore_GetBirds query st)) = None)"
  by (auto simp: dbStore_GetBirds_def scan_rows_good scan_rows_error split: prod.splits sum.splits)

theorem dbStore_GetBirds_no_partial_witness:
  "failing_query () select_sql [] = (Inl (Error ''pq: relation birds does not exist''), ())
   \<and> fst (dbStore_GetBirds failing_query \<lparr>db = ()\<rparr>)
       = (None, Some (Error ''pq: relation birds does not exist''))
   \<and> scan_error_query () select_sql []
       = (Inr (map Inr [(''Crow'', ''Black bird'')]
               @ Inl (Error ''converting NULL to string is unsupported'')
               # [Inr (''Chimni'', ''Found in India'')]), ())
   \<and> fst (dbStore_GetBirds scan_error_query \<lparr>db = ()\<rparr>)
       = (None, Some (Error ''converting NULL to string is unsupported''))
   \<and> snd (fst (dbStore_GetBirds scan_error_query \<lparr>db = ()\<rparr>)) \<noteq> None
   \<and> fst (fst (dbStore_GetBirds scan_error_query \<lparr>db = ()\<rparr>)) = None"
proof -
  have q1: "failing_query (db \<lparr>db = ()\<rparr>) select_sql []
      = (Inl (Error ''pq: relation birds does not exist''), ())"
    by (simp add: failing_query_def)
  have q2: "scan_error_query (db \<lparr>db = ()\<rparr>) select_sql []
       = (Inr (map Inr [(''Crow'', ''Black bird'')]
               @ Inl (Error ''converting NULL to string is unsupported'')
               # [Inr (''Chimni'', ''Found in India'')]), ())"
    by (simp add: scan_error_query_def)
  show ?thesis
    using dbStore_GetBirds_no_partial [where query = failing_query and st = "\<lparr>db = ()\<rparr>"
        and err = "Error ''pq: relation birds does not exist''" and d = "()"]
      dbStore_GetBirds_no_partial [where query = scan_error_query and st = "\<lparr>db = ()\<rparr>"
        and good = "[(''Crow'', ''Black bird'')]"
        and err = "Error ''converting NULL to string is unsupported''"
        and rest = "[Inr (''Chimni'', ''Found in India'')]" and d = "()"]
      q1 q2
    by simp
qed



subsection \<open>Round trip through the store and JSON\<close>

text \<open>Arithmetic of the UTF-8 bit fields.\<close>

lemma digit: "j < m \<Longrightarrow> (k * m + j) div m = k \<and> (k * m + j) mod m = (j::nat)"
  by simp

lemma low_bits:
  fixes b :: nat
  assumes "base \<le> b" "b < base + m" "base mod m = 0"
  shows "b mod m = b - base"
proof -
  obtain k where k: "b = base + k" "k < m"
    using assms(1,2) by (metis add_diff_inverse_nat nat_add_left_cancel_less not_less)
  from assms(3) have "(base + k) mod m = k mod m" by (simp add: mod_add_left_eq [symmetric] del: mod_add_left_eq)
  with k show ?thesis by simp
qed

lemma enc2:
  fixes b0 b1 :: nat
  assumes "0xC2 \<le> b0" "b0 < 0xE0" "0x80 \<le> b1" "b1 \<le> 0xBF"
  defines "r \<equiv> (b0 mod 0x20) * 0x40 + b1 mod 0x40"
  shows "0x80 \<le> r" "r < 0x800" "0xC0 + r div 0x40 = b0" "0x80 + r mod 0x40 = b1"
proof -
  have m0: "b0 mod 0x20 = b0 - 0xC0" using assms(1,2) by (intro low_bits) simp_all
  have m1: "b1 mod 0x40 = b1 - 0x80" using assms(3,4) by (intro low_bits) simp_all
  have d: "r div 0x40 = b0 - 0xC0 \<and> r mod 0x40 = b1 - 0x80"
    unfolding r_def m0 m1 using assms(3,4) by (intro digit) simp
  show "0x80 \<le> r" "r < 0x800" unfolding r_def m0 m1 using assms(1-4) by simp_all
  show "0xC0 + r div 0x40 = b0" "0x80 + r mod 0x40 = b1" using d assms(1-4) by simp_all
qed


lemma enc3:
  fixes b0 b1 b2 :: nat
  assumes "0xE0 \<le> b0" "b0 < 0xF0" "(if b0 = 0xE0 then 0xA0 else 0x80) \<le> b1"
    "b1 \<le> (if b0 = 0xED then 0x9F else 0xBF)" "0x80 \<le> b2" "b2 \<le> 0xBF"
  defines "r \<equiv> (b0 mod 0x10) * 0x1000 + (b1 mod 0x40) * 0x40 + b2 mod 0x40"
  shows "0x800 \<le> r" "r < 0x10000" "\<not> (0xD800 \<le> r \<and> r \<le> 0xDFFF)"
    "0xE0 + r div 0x1000 = b0" "0x80 + r div 0x40 mod 0x40 = b1" "0x80 + r mod 0x40 = b2"
proof -
  have b1: "0x80 \<le> b1" "b1 \<le> 0xBF" using assms(3,4) by (simp_all split: if_splits)
  have m0: "b0 mod 0x10 = b0 - 0xE0" using assms(1,2) by (intro low_bits) simp_all
  have m1: "b1 mod 0x40 = b1 - 0x80" using b1 by (intro low_bits) simp_all
  have m2: "b2 mod 0x40 = b2 - 0x80" using assms(5,6) by (intro low_bits) simp_all
  define k0 k1 k2 where "k0 = b0 - 0xE0" and "k1 = b1 - 0x80" and "k2 = b2 - 0x80"
  have k: "k0 < 16" "k1 < 64" "k2 < 64" "b0 = 0xE0 + k0" "b1 = 0x80 + k1" "b2 = 0x80 + k2"
    using assms(1,2,5,6) b1 by (simp_all add: k0_def k1_def k2_def)
  have r: "r = k0 * 0x1000 + k1 * 0x40 + k2" by (simp add: r_def m0 m1 m2 k0_def k1_def k2_def)
  have r': "r = (k0 * 0x40 + k1) * 0x40 + k2" by (simp add: r)
  have r'': "r = k0 * 0x1000 + (k1 * 0x40 + k2)" by (simp add: r)
  have low: "k1 * 0x40 + k2 < 0x1000" using k(2,3) by simp
  have d1: "r div 0x40 = k0 * 0x40 + k1" "r mod 0x40 = k2"
    unfolding r' using digit [of k2 "0x40" "k0 * 0x40 + k1"] k(3) by simp_all
  have d2: "(k0 * 0x40 + k1) mod 0x40 = k1" using digit [of k1 "0x40" k0] k(2) by simp
  have d3: "r div 0x1000 = k0" unfolding r'' using digit [of "k1 * 0x40 + k2" "0x1000" k0] low by simp
  have lo: "k0 = 0 \<Longrightarrow> 32 \<le> k1" using assms(3) k(4,5) by (simp split: if_splits)
  have hi: "k0 = 13 \<Longrightarrow> k1 < 32" using assms(4) k(4,5) by (simp split: if_splits)
  show "0x800 \<le> r"
  proof (cases "k0 = 0")
    case True then show ?thesis using lo r by simp
  next
    case False then have "1 \<le> k0" by simp
    then have "0x1000 \<le> k0 * 0x1000" by simp
    then show ?thesis using r by simp
  qed
  show "r < 0x10000" using r k(1) low by simp
  show "\<not> (0xD800 \<le> r \<and> r \<le> 0xDFFF)"
  proof -
    consider "k0 \<le> 12" | "k0 = 13" | "14 \<le> k0" by linarith
    then show ?thesis
    proof cases
      case 1
      then have "k0 * 0x1000 \<le> 12 * 0x1000" by simp
      then show ?thesis using r low by simp
    next
      case 2
      then have "k1 * 0x40 < 32 * 0x40" using hi by simp
      then show ?thesis using r 2 k(3) by simp
    next
      case 3
      then have "14 * 0x1000 \<le> k0 * 0x1000" by simp
      then show ?thesis using r by simp
    qed
  qed
  show "0xE0 + r div 0x1000 = b0" using d3 k(4) by simp
  show "0x80 + r div 0x40 mod 0x40 = b1" using d1 d2 k(5) by simp
  show "0x80 + r mod 0x40 = b2" using d1 k(6) by simp
qed

lemma enc4:
  fixes b0 b1 b2 b3 :: nat
  assumes "0xF0 \<le> b0" "b0 \<le> 0xF4" "(if b0 = 0xF0 then 0x90 else 0x80) \<le> b1"
    "b1 \<le> (if b0 = 0xF4 then 0x8F else 0xBF)" "0x80 \<le> b2" "b2 \<le> 0xBF" "0x80 \<le> b3" "b3 \<le> 0xBF"
  defines "r \<equiv> (b0 mod 0x08) * 0x40000 + (b1 mod 0x40) * 0x1000 + (b2 mod 0x40) * 0x40 + b3 mod 0x40"
  shows "0x10000 \<le> r" "r \<le> 0x10FFFF"
    "0xF0 + r div 0x40000 = b0" "0x80 + r div 0x1000 mod 0x40 = b1"
    "0x80 + r div 0x40 mod 0x40 = b2" "0x80 + r mod 0x40 = b3"
proof -
  have b1: "0x80 \<le> b1" "b1 \<le> 0xBF" using assms(3,4) by (simp_all split: if_splits)
  have m0: "b0 mod 0x08 = b0 - 0xF0" using assms(1,2) by (intro low_bits) simp_all
  have m1: "b1 mod 0x40 = b1 - 0x80" using b1 by (intro low_bits) simp_all
  have m2: "b2 mod 0x40 = b2 - 0x80" using assms(5,6) by (intro low_bits) simp_all
  have m3: "b3 mod 0x40 = b3 - 0x80" using assms(7,8) by (intro low_bits) simp_all
  define k0 k1 k2 k3 where "k0 = b0 - 0xF0" and "k1 = b1 - 0x80" and "k2 = b2 - 0x80" and "k3 = b3 - 0x80"
  have k: "k0 \<le> 4" "k1 < 64" "k2 < 64" "k3 < 64"
    "b0 = 0xF0 + k0" "b1 = 0x80 + k1" "b2 = 0x80 + k2" "b3 = 0x80 + k3"
    using assms(1,2,5,6,7,8) b1 by (simp_all add: k0_def k1_def k2_def k3_def)
  have r: "r = k0 * 0x40000 + k1 * 0x1000 + k2 * 0x40 + k3"
    by (simp add: r_def m0 m1 m2 m3 k0_def k1_def k2_def k3_def)
  have ra: "r = ((k0 * 0x40 + k1) * 0x40 + k2) * 0x40 + k3" by (simp add: r)
  have rb: "r = (k0 * 0x40 + k1) * 0x1000 + (k2 * 0x40 + k3)" by (simp add: r)
  have rc: "r = k0 * 0x40000 + (k1 * 0x1000 + k2 * 0x40 + k3)" by (simp add: r)
  have low2: "k2 * 0x40 + k3 < 0x1000" using k(3,4) by simp
  have low3: "k1 * 0x1000 + k2 * 0x40 + k3 < 0x40000" using k(2,3,4) by simp
  have d1: "r div 0x40 = (k0 * 0x40 + k1) * 0x40 + k2" "r mod 0x40 = k3"
    unfolding ra using digit [of k3 "0x40" "(k0 * 0x40 + k1) * 0x40 + k2"] k(4) by simp_all
  have d2: "r div 0x1000 = k0 * 0x40 + k1"
    unfolding rb using digit [of "k2 * 0x40 + k3" "0x1000" "k0 * 0x40 + k1"] low2 by simp
  have d3: "r div 0x40000 = k0"
    unfolding rc using digit [of "k1 * 0x1000 + k2 * 0x40 + k3" "0x40000" k0] low3 by simp
  have e1: "(k0 * 0x40 + k1) mod 0x40 = k1" using digit [of k1 "0x40" k0] k(2) by simp
  have e2: "((k0 * 0x40 + k1) * 0x40 + k2) mod 0x40 = k2"
    using digit [of k2 "0x40" "k0 * 0x40 + k1"] k(3) by simp
  have lo: "k0 = 0 \<Longrightarrow> 16 \<le> k1" using assms(3) k(5,6) by (simp split: if_splits)
  have hi: "k0 = 4 \<Longrightarrow> k1 < 16" using assms(4) k(5,6) by (simp split: if_splits)
  show "0x10000 \<le> r"
  proof (cases "k0 = 0")
    case True
    then have "16 * 0x1000 \<le> k1 * 0x1000" using lo by simp
    then show ?thesis using r by simp
  next
    case False then have "1 \<le> k0" by simp
    then have "0x40000 \<le> k0 * 0x40000" by simp
    then show ?thesis using r by simp
  qed
  show "r \<le> 0x10FFFF"
  proof (cases "k0 = 4")
    case True
    then have "k1 \<le> 15" using hi by simp
    then have "k1 * 0x1000 \<le> 15 * 0x1000" by simp
    then show ?thesis using r True low2 by simp
  next
    case False then have "k0 \<le> 3" using k(1) by simp
    then have "k0 * 0x40000 \<le> 3 * 0x40000" by simp
    then show ?thesis using r low3 by simp
  qed
  show "0xF0 + r div 0x40000 = b0" using d3 k(5) by simp
  show "0x80 + r div 0x1000 mod 0x40 = b1" using d2 e1 k(6) by simp
  show "0x80 + r div 0x40 mod 0x40 = b2" using d1 e2 k(7) by simp
  show "0x80 + r mod 0x40 = b3" using d1 k(8) by simp
qed

text \<open>A well-formed multi-byte sequence is what \<open>EncodeRune\<close> writes for its code point,
  and it decodes the same whatever follows it.\<close>

lemma decode_multibyte:
  assumes hi: "\<not> (of_char c :: nat) < 0x80"
    and dec: "DecodeRuneInString (c # s) = (r, n)"
    and ok: "\<not> (r = RuneError \<and> n = 1)"
  shows "EncodeRune r = take n (c # s) \<and> DecodeRuneInString (take n (c # s) @ t) = (r, n)
         \<and> n \<le> length (c # s) \<and> 0 < n"
proof -
  define b0 where "b0 = (of_char c :: nat)"
  have bad: "\<not> (b0 < 0xC2 \<or> 0xF4 < b0)"
    using dec ok hi by (auto simp: b0_def Let_def)
  consider (two) "b0 < 0xE0" | (three) "0xE0 \<le> b0" "b0 < 0xF0" | (four) "0xF0 \<le> b0"
    by linarith
  then show ?thesis
  proof cases
    case two
    from dec ok hi bad two obtain c1 s' where s: "s = c1 # s'" and so: "second_ok b0 c1"
      and r: "r = (b0 mod 0x20) * 0x40 + of_char c1 mod 0x40" and n: "n = 2"
      by (auto simp: b0_def Let_def split: list.splits if_splits)
    define b1 where "b1 = (of_char c1 :: nat)"
    have rng: "0xC2 \<le> b0" "b0 < 0xE0" "0x80 \<le> b1" "b1 \<le> 0xBF"
      using bad two so by (auto simp: second_ok_def accept_lo_def accept_hi_def b1_def)
    have rr: "r = (b0 mod 0x20) * 0x40 + b1 mod 0x40" by (simp add: r b1_def)
    note e = enc2 [OF rng, folded rr]
    have "EncodeRune r = [char_of b0, char_of b1]"
      using e(1,2) by (simp add: EncodeRune_def e(3,4))
    then have enc: "EncodeRune r = [c, c1]" by (simp add: b0_def b1_def)
    have "DecodeRuneInString ([c, c1] @ t) = (r, n)"
      using hi bad two so by (simp add: Let_def r n b0_def)
    then show ?thesis using enc by (simp add: s n)
  next
    case three
    from dec ok hi bad three obtain c1 c2 s' where s: "s = c1 # c2 # s'" and so: "second_ok b0 c1"
      and co: "cont_byte c2"
      and r: "r = (b0 mod 0x10) * 0x1000 + (of_char c1 mod 0x40) * 0x40 + of_char c2 mod 0x40"
      and n: "n = 3"
      by (auto simp: b0_def Let_def split: list.splits if_splits)
    define b1 b2 where "b1 = (of_char c1 :: nat)" and "b2 = (of_char c2 :: nat)"
    have rng: "0xE0 \<le> b0" "b0 < 0xF0" "(if b0 = 0xE0 then 0xA0 else 0x80) \<le> b1"
      "b1 \<le> (if b0 = 0xED then 0x9F else 0xBF)" "0x80 \<le> b2" "b2 \<le> 0xBF"
      using three so co by (auto simp: second_ok_def accept_lo_def accept_hi_def cont_byte_def b1_def b2_def)
    have rr: "r = (b0 mod 0x10) * 0x1000 + (b1 mod 0x40) * 0x40 + b2 mod 0x40"
      by (simp add: r b1_def b2_def)
    note e = enc3 [OF rng, folded rr]
    have "EncodeRune r = [char_of b0, char_of b1, char_of b2]"
    proof -
      have ns: "(0xD800 \<le> r \<and> r \<le> 0xDFFF) = False" using e(3) by simp
      show ?thesis using e(1,2) by (simp add: EncodeRune_def e(4,5,6) ns)
    qed
    then have enc: "EncodeRune r = [c, c1, c2]" by (simp add: b0_def b1_def b2_def)
    have "DecodeRuneInString ([c, c1, c2] @ t) = (r, n)"
      using hi bad three so co by (simp add: Let_def r n b0_def)
    then show ?thesis using enc by (simp add: s n)
  next
    case four
    from dec ok hi bad four obtain c1 c2 c3 s' where s: "s = c1 # c2 # c3 # s'"
      and so: "second_ok b0 c1" and co: "cont_byte c2" "cont_byte c3"
      and r: "r = (b0 mod 0x08) * 0x40000 + (of_char c1 mod 0x40) * 0x1000
                   + (of_char c2 mod 0x40) * 0x40 + of_char c3 mod 0x40"
      and n: "n = 4"
      by (auto simp: b0_def Let_def split: list.splits if_splits)
    define b1 b2 b3 where "b1 = (of_char c1 :: nat)" and "b2 = (of_char c2 :: nat)"
      and "b3 = (of_char c3 :: nat)"
    have rng: "0xF0 \<le> b0" "b0 \<le> 0xF4" "(if b0 = 0xF0 then 0x90 else 0x80) \<le> b1"
      "b1 \<le> (if b0 = 0xF4 then 0x8F else 0xBF)" "0x80 \<le> b2" "b2 \<le> 0xBF" "0x80 \<le> b3" "b3 \<le> 0xBF"
      using four bad so co
      by (auto simp: second_ok_def accept_lo_def accept_hi_def cont_byte_def b1_def b2_def b3_def)
    have rr: "r = (b0 mod 0x08) * 0x40000 + (b1 mod 0x40) * 0x1000 + (b2 mod 0x40) * 0x40 + b3 mod 0x40"
      by (simp add: r b1_def b2_def b3_def)
    note e = enc4 [OF rng, folded rr]
    have "EncodeRune r = [char_of b0, char_of b1, char_of b2, char_of b3]"
      using e(1,2) by (simp add: EncodeRune_def e(3,4,5,6))
    then have enc: "EncodeRune r = [c, c1, c2, c3]" by (simp add: b0_def b1_def b2_def b3_def)
    have "DecodeRuneInString ([c, c1, c2, c3] @ t) = (r, n)"
      using hi bad four so co by (simp add: Let_def r n b0_def)
    then show ?thesis using enc by (simp add: s n)
  qed
qed

text \<open>One step of the reader on each form the encoder writes.\<close>

lemma hexval_hex: "k < 16 \<Longrightarrow> hexval (hex ! k) = Some k"
proof -
  have "\<forall>k \<in> set [0..<16]. hexval (hex ! k) = Some k"
    by (simp add: upt_rec hex_def hexval_def)
  then show "k < 16 \<Longrightarrow> hexval (hex ! k) = Some k" by simp
qed

lemma emit_Some: "emit p (Some (out, rest)) = Some (p @ out, rest)"
  by (simp add: emit_def)

lemma backslash_not_quote: "backslash \<noteq> CHR 0x22"
  by (simp add: backslash_def)

lemma unquote_to_plain:
  assumes "c \<noteq> CHR 0x22" "c \<noteq> backslash" "0x20 \<le> (of_char c :: nat)" "(of_char c :: nat) < 0x80"
  shows "unquote_to (c # t) = emit [c] (unquote_to t)"
  using assms by (subst unquote_to.simps) (simp del: unquote_to.simps)

lemma unquote_to_short:
  assumes "e = CHR 0x22 \<or> e = backslash"
  shows "unquote_to (backslash # e # t) = emit [e] (unquote_to t)"
  using assms by (subst unquote_to.simps) (auto simp del: unquote_to.simps simp add: backslash_not_quote)

lemma unquote_to_control:
  "unquote_to (backslash # CHR ''b'' # t) = emit [CHR 0x08] (unquote_to t)"
  "unquote_to (backslash # CHR ''f'' # t) = emit [CHR 0x0C] (unquote_to t)"
  "unquote_to (backslash # CHR ''n'' # t) = emit [CHR 0x0A] (unquote_to t)"
  "unquote_to (backslash # CHR ''r'' # t) = emit [CHR 0x0D] (unquote_to t)"
  "unquote_to (backslash # CHR ''t'' # t) = emit [CHR 0x09] (unquote_to t)"
  by (subst unquote_to.simps, simp del: unquote_to.simps add: backslash_def)+

lemma unquote_to_u:
  assumes "getu4 (backslash # CHR ''u'' # h1 # h2 # h3 # h4 # t) = Some rr" "\<not> IsSurrogate rr"
  shows "unquote_to (backslash # CHR ''u'' # h1 # h2 # h3 # h4 # t) = emit (EncodeRune rr) (unquote_to t)"
  using assms
  by (subst unquote_to.simps) (simp del: unquote_to.simps getu4.simps add: backslash_def)

lemma unquote_to_multi:
  assumes "\<not> (of_char c :: nat) < 0x80"
  shows "unquote_to (c # s) =
    (case DecodeRuneInString (c # s) of (rr, n) \<Rightarrow> emit (EncodeRune rr) (unquote_to (drop n (c # s))))"
proof -
  have "c \<noteq> CHR 0x22" "c \<noteq> backslash" using assms by (auto simp: backslash_def)
  then show ?thesis using assms
    by (subst unquote_to.simps) (simp del: unquote_to.simps DecodeRuneInString.simps)
qed

lemma getu4_00:
  assumes "(b::nat) < 0x80"
  shows "getu4 (backslash # CHR ''u'' # CHR ''0'' # CHR ''0'' # hex ! (b div 16) # hex ! (b mod 16) # t) = Some b"
proof -
  have d: "b div 16 < 16" "b mod 16 < 16" using assms by simp_all
  have z: "hexval CHR ''0'' = Some 0" by (simp add: hexval_def)
  show ?thesis by (simp add: z hexval_hex [OF d(1)] hexval_hex [OF d(2)])
qed

lemma unquote_u00:
  assumes "(of_char c :: nat) < 0x80"
  shows "unquote_to (backslash # ''u00'' @ [hex ! (of_char c div 16), hex ! (of_char c mod 16)] @ t)
         = emit [c] (unquote_to t)"
proof -
  have ns: "\<not> IsSurrogate (of_char c)" using assms by (simp add: IsSurrogate_def)
  have e: "EncodeRune (of_char c) = [c]" using assms by (simp add: EncodeRune_def)
  show ?thesis
    using unquote_to_u [OF getu4_00 [OF assms] ns, of t] by (simp add: e del: unquote_to.simps getu4.simps)
qed

lemma unquote_escape_byte:
  assumes "(of_char c :: nat) < 0x80" "\<not> htmlSafe c"
  shows "unquote_to (escape_byte c @ t) = emit [c] (unquote_to t)"
proof -
  consider "c = backslash \<or> c = CHR 0x22" | "c = CHR 0x08" | "c = CHR 0x0C" | "c = CHR 0x0A"
    | "c = CHR 0x0D" | "c = CHR 0x09"
    | "c \<noteq> backslash" "c \<noteq> CHR 0x22" "c \<noteq> CHR 0x08" "c \<noteq> CHR 0x0C" "c \<noteq> CHR 0x0A"
      "c \<noteq> CHR 0x0D" "c \<noteq> CHR 0x09"
    by blast
  then show ?thesis
  proof cases
    case 1
    then have "escape_byte c = [backslash, c]" by (auto simp: escape_byte_def)
    then show ?thesis using unquote_to_short [of c t] 1 by (auto simp del: unquote_to.simps)
  next
    case 7
    then have "escape_byte c = backslash # ''u00'' @ [hex ! (of_char c div 16), hex ! (of_char c mod 16)]"
      by (simp add: escape_byte_def)
    then show ?thesis using unquote_u00 [OF assms(1), of t] by (simp del: unquote_to.simps)
  qed (simp_all del: unquote_to.simps add: escape_byte_def unquote_to_control [unfolded backslash_def] backslash_def)
qed


lemma unquote_to_appendString:
  "ValidString s \<Longrightarrow> unquote_to (appendString s @ CHR 0x22 # rest) = Some (s, rest)"
proof (induction s rule: appendString.induct)
  case 1
  show ?case by simp
next
  case (2 c s)
  show ?case
  proof (cases "(of_char c :: nat) < 0x80")
    case True
    then have v: "ValidString s" using "2.prems" by (simp add: RuneError_def)
    show ?thesis
    proof (cases "htmlSafe c")
      case safe: True
      have ih: "unquote_to (appendString s @ CHR 0x22 # rest) = Some (s, rest)"
        using "2.IH"(1) [OF True safe v] .
      have "unquote_to (c # appendString s @ CHR 0x22 # rest)
            = emit [c] (unquote_to (appendString s @ CHR 0x22 # rest))"
        using safe by (intro unquote_to_plain) (simp_all add: htmlSafe_def)
      then show ?thesis using True safe by (simp add: ih emit_Some del: unquote_to.simps)
    next
      case unsafe: False
      have ih: "unquote_to (appendString s @ CHR 0x22 # rest) = Some (s, rest)"
        using "2.IH"(2) [OF True unsafe v] .
      show ?thesis
        using True unsafe unquote_escape_byte [OF True unsafe, of "appendString s @ CHR 0x22 # rest"]
        by (simp add: ih emit_Some del: unquote_to.simps)
    qed
  next
    case False
    obtain r n where dec: "DecodeRuneInString (c # s) = (r, n)" by (cases "DecodeRuneInString (c # s)")
    have ok: "\<not> (r = RuneError \<and> n = 1)" and v: "ValidString (drop n (c # s))"
      using "2.prems" dec by (simp_all del: DecodeRuneInString.simps)
    note m = decode_multibyte [OF False dec ok]
    have tk: "take n (c # s) @ drop n (c # s) = c # s" by simp
    have len: "length (take n (c # s)) = n" using m by simp
    show ?thesis
    proof (cases "r = 0x2028 \<or> r = 0x2029")
      case True
      have ih: "unquote_to (appendString (drop n (c # s)) @ CHR 0x22 # rest) = Some (drop n (c # s), rest)"
        using "2.IH"(4) [OF False dec [symmetric] ok True v] .
      have h: "hex ! (r mod 16) = (if r = 0x2028 then CHR ''8'' else CHR ''9'')"
        using True by (auto simp: hex_def)
      have g: "getu4 (backslash # CHR ''u'' # CHR ''2'' # CHR ''0'' # CHR ''2'' # hex ! (r mod 16) # t) = Some r" for t
        using True by (auto simp: h hexval_def)
      have ns: "\<not> IsSurrogate r" using True by (auto simp: IsSurrogate_def)
      have app: "appendString (c # s) = backslash # ''u202'' @ [hex ! (r mod 16)] @ appendString (drop n (c # s))"
        using False dec ok True by (simp del: DecodeRuneInString.simps)
      have "unquote_to (appendString (c # s) @ CHR 0x22 # rest)
            = emit (EncodeRune r) (unquote_to (appendString (drop n (c # s)) @ CHR 0x22 # rest))"
        unfolding app using unquote_to_u [OF g ns] by (simp del: unquote_to.simps getu4.simps)
      also have "\<dots> = Some (take n (c # s) @ drop n (c # s), rest)"
        using m by (simp add: ih emit_Some del: unquote_to.simps)
      finally show ?thesis by (simp only: tk)
    next
      case other: False
      have ih: "unquote_to (appendString (drop n (c # s)) @ CHR 0x22 # rest) = Some (drop n (c # s), rest)"
        using "2.IH"(5) [OF False dec [symmetric] ok other v] .
      have app: "appendString (c # s) = take n (c # s) @ appendString (drop n (c # s))"
        using False dec ok other by (simp del: DecodeRuneInString.simps)
      obtain u where u: "take n (c # s) = c # u" using m by (cases n) auto
      define t where "t = appendString (drop n (c # s)) @ CHR 0x22 # rest"
      have d2: "DecodeRuneInString (c # u @ t) = (r, n)" using m u by (metis append_Cons)
      have dr: "drop n (c # u @ t) = t" using len u by (metis append_Cons append_eq_conv_conj)
      have "unquote_to (c # u @ t) = emit (EncodeRune r) (unquote_to t)"
        using unquote_to_multi [OF False, of "u @ t"] d2 dr by (simp del: unquote_to.simps DecodeRuneInString.simps)
      then have "unquote_to (appendString (c # s) @ CHR 0x22 # rest) = Some (take n (c # s) @ drop n (c # s), rest)"
        unfolding app using m u ih by (simp add: t_def emit_Some del: unquote_to.simps DecodeRuneInString.simps)
      then show ?thesis by (simp only: tk)
    qed
  qed
qed

lemma unquote_encodeString:
  "ValidString s \<Longrightarrow> unquote (encodeString s @ rest) = Some (s, rest)"
  by (simp add: unquote_def encodeString_def unquote_to_appendString del: unquote_to.simps appendString.simps)

lemma expect_prefix: "expect p (p @ t) = Some t"
  by (induction p) simp_all

lemma EncodeRune_FFFD: "EncodeRune 0xFFFD = [CHR 0xEF, CHR 0xBF, CHR 0xBD]"
  by (simp add: EncodeRune_def char_of_eq_iff)

lemma unquote_FFFD:
  "unquote (CHR 0x22 # backslash # ''ufffd'' @ CHR 0x22 # t) = Some ([CHR 0xEF, CHR 0xBF, CHR 0xBD], t)"
proof -
  have g: "getu4 (backslash # CHR ''u'' # CHR ''f'' # CHR ''f'' # CHR ''f'' # CHR ''d'' # CHR 0x22 # t)
      = Some 0xFFFD"
    by (simp add: hexval_def)
  have ns: "\<not> IsSurrogate 0xFFFD" by (simp add: IsSurrogate_def)
  have "unquote_to (backslash # CHR ''u'' # CHR ''f'' # CHR ''f'' # CHR ''f'' # CHR ''d'' # CHR 0x22 # t)
      = emit (EncodeRune 0xFFFD) (unquote_to (CHR 0x22 # t))"
    by (rule unquote_to_u [OF g ns])
  also have "\<dots> = Some ([CHR 0xEF, CHR 0xBF, CHR 0xBD], t)"
    by (simp add: EncodeRune_FFFD emit_def)
  finally show ?thesis by (simp add: unquote_def del: unquote_to.simps)
qed

lemma unmarshal_encodeBird_gen:
  assumes "\<And>rest. unquote (encodeString (Species b) @ rest) = Some (sp, rest)"
    and "\<And>rest. unquote (encodeString (Description b) @ rest) = Some (de, rest)"
  shows "unmarshalBird (encodeBird b) = Some \<lparr>Species = sp, Description = de\<rparr>"
proof -
  have 1: \<open>expect ''{"species":'' (encodeBird b)
      = Some (encodeString (Species b) @ '',"description":'' @ encodeString (Description b) @ ''}'')\<close>
    unfolding encodeBird_def by (rule expect_prefix)
  have 2: \<open>expect '',"description":'' ('',"description":'' @ encodeString (Description b) @ ''}'')
      = Some (encodeString (Description b) @ ''}'')\<close>
    by (rule expect_prefix)
  show ?thesis
    unfolding unmarshalBird_def 1
    by (simp only: option.case prod.case assms 2) simp
qed

lemma unmarshal_encodeBird:
  assumes "ValidString (Species b)" "ValidString (Description b)"
  shows "unmarshalBird (encodeBird b) = Some (b :: Bird)"
  using unmarshal_encodeBird_gen [of b "Species b" "Description b"]
    unquote_encodeString [OF assms(1)] unquote_encodeString [OF assms(2)]
  by simp

lemma unquote_ill_formed:
  "unquote (encodeString [CHR 0xFF] @ rest) = Some ([CHR 0xEF, CHR 0xBF, CHR 0xBD], rest)"
proof -
  have "encodeString [CHR 0xFF] @ rest = CHR 0x22 # backslash # ''ufffd'' @ CHR 0x22 # rest"
    by (simp add: encodeString_def RuneError_def)
  then show ?thesis by (simp only: unquote_FFFD)
qed

lemma unquote_empty: "unquote (encodeString [] @ rest) = Some ([], rest)"
  by (simp add: unquote_def encodeString_def)

lemma create_then_get:
  assumes ins: "query d insert_sql [Species b, Description b] = (Inr cur, d')"
    and sel: "query d' select_sql [] = (Inr (map Inr rs), d'')"
  shows "fst (dbStore_CreateBird query \<lparr>db = d\<rparr> b) = None
   \<and> fst (dbStore_GetBirds query (snd (dbStore_CreateBird query \<lparr>db = d\<rparr> b)))
       = (Some (map (\<lambda>(s, d). \<lparr>Species = s, Description = d\<rparr>) rs), None)"
  using scan_rows_good [of rs "[]" "[]"]
  by (simp add: dbStore_CreateBird_def dbStore_GetBirds_def ins sel)

lemma row_bird:
  "(Species b, Description b) \<in> set rs \<Longrightarrow>
     (b :: Bird) \<in> set (map (\<lambda>(s, d). \<lparr>Species = s, Description = d\<rparr>) rs)"
  by (force simp: image_iff)

text \<open>
  C7, as the code has it. For every Bird whose species and description are well-formed
  UTF-8, and every database on which the insert of \<open>CreateBird\<close> succeeds and the
  following select succeeds with rows that all scan and have the inserted row among
  them: \<open>CreateBird\<close> returns no error, the following \<open>GetBirds\<close> returns without error
  a sequence that holds the bird, and the JSON encoding of the bird reads back as the
  bird itself.
\<close>

theorem roundtrip_well_formed:
  "ValidString (Species b) \<Longrightarrow> ValidString (Description b) \<Longrightarrow>
   query d insert_sql [Species b, Description b] = (Inr cur, d') \<Longrightarrow>
   query d' select_sql [] = (Inr (map Inr rs), d'') \<Longrightarrow>
   (Species b, Description b) \<in> set rs \<Longrightarrow>
     fst (dbStore_CreateBird query \<lparr>db = d\<rparr> b) = None
   \<and> (\<exists>bs. fst (dbStore_GetBirds query (snd (dbStore_CreateBird query \<lparr>db = d\<rparr> b)))
              = (Some bs, None) \<and> b \<in> set bs)
   \<and> unmarshalBird (encodeBird b) = Some (b :: Bird)"
  using create_then_get [of query d b cur d' rs d''] row_bird [of b rs] unmarshal_encodeBird [of b]
  by simp

theorem roundtrip_well_formed_witness:
  "ValidString (Species crow) \<and> ValidString (Description crow)
   \<and> table_query [(''Chimni'', ''Found in India'')] insert_sql [Species crow, Description crow]
       = (Inr [], [(''Chimni'', ''Found in India''), (''Crow'', ''Black bird'')])
   \<and> table_query [(''Chimni'', ''Found in India''), (''Crow'', ''Black bird'')] select_sql []
       = (Inr (map Inr [(''Chimni'', ''Found in India''), (''Crow'', ''Black bird'')]),
          [(''Chimni'', ''Found in India''), (''Crow'', ''Black bird'')])
   \<and> (Species crow, Description crow) \<in> set [(''Chimni'', ''Found in India''), (''Crow'', ''Black bird'')]
   \<and> fst (dbStore_CreateBird table_query \<lparr>db = [(''Chimni'', ''Found in India'')]\<rparr> crow) = None
   \<and> (\<exists>bs. fst (dbStore_GetBirds table_query
               (snd (dbStore_CreateBird table_query \<lparr>db = [(''Chimni'', ''Found in India'')]\<rparr> crow)))
              = (Some bs, None) \<and> crow \<in> set bs)
   \<and> unmarshalBird (encodeBird crow) = Some crow
   \<and> ValidString (Species empty_bird) \<and> ValidString (Description empty_bird)
   \<and> stack_query [(''Chimni'', ''Found in India'')] insert_sql [Species empty_bird, Description empty_bird]
       = (Inr [], [([], []), (''Chimni'', ''Found in India'')])
   \<and> stack_query [([], []), (''Chimni'', ''Found in India'')] select_sql []
       = (Inr (map Inr [([], []), (''Chimni'', ''Found in India'')]),
          [([], []), (''Chimni'', ''Found in India'')])
   \<and> (Species empty_bird, Description empty_bird) \<in> set [([], []), (''Chimni'', ''Found in India'')]
   \<and> fst (dbStore_CreateBird stack_query \<lparr>db = [(''Chimni'', ''Found in India'')]\<rparr> empty_bird) = None
   \<and> (\<exists>bs. fst (dbStore_GetBirds stack_query
               (snd (dbStore_CreateBird stack_query \<lparr>db = [(''Chimni'', ''Found in India'')]\<rparr> empty_bird)))
              = (Some bs, None) \<and> empty_bird \<in> set bs)
   \<and> unmarshalBird (encodeBird empty_bird) = Some empty_bird"
proof -
  have v: "ValidString (Species crow)" "ValidString (Description crow)"
    "ValidString (Species empty_bird)" "ValidString (Description empty_bird)"
    by (simp_all add: crow_def empty_bird_def RuneError_def)
  have t1: "table_query [(''Chimni'', ''Found in India'')] insert_sql [Species crow, Description crow]
       = (Inr [], [(''Chimni'', ''Found in India''), (''Crow'', ''Black bird'')])"
    by (simp add: table_query_def crow_def)
  have t2: "table_query [(''Chimni'', ''Found in India''), (''Crow'', ''Black bird'')] select_sql []
       = (Inr (map Inr [(''Chimni'', ''Found in India''), (''Crow'', ''Black bird'')]),
          [(''Chimni'', ''Found in India''), (''Crow'', ''Black bird'')])"
    by (simp add: table_query_def select_sql_def insert_sql_def)
  have t3: "(Species crow, Description crow) \<in> set [(''Chimni'', ''Found in India''), (''Crow'', ''Black bird'')]"
    by (simp add: crow_def)
  have s1: "stack_query [(''Chimni'', ''Found in India'')] insert_sql [Species empty_bird, Description empty_bird]
       = (Inr [], [([], []), (''Chimni'', ''Found in India'')])"
    by (simp add: stack_query_def empty_bird_def)
  have s2: "stack_query [([], []), (''Chimni'', ''Found in India'')] select_sql []
       = (Inr (map Inr [([], []), (''Chimni'', ''Found in India'')]),
          [([], []), (''Chimni'', ''Found in India'')])"
    by (simp add: stack_query_def select_sql_def insert_sql_def)
  have s3: "(Species empty_bird, Description empty_bird) \<in> set [([], []), (''Chimni'', ''Found in India'')]"
    by (simp add: empty_bird_def)
  note a = roundtrip_well_formed [OF v(1,2) t1 t2 t3]
  note b = roundtrip_well_formed [OF v(3,4) s1 s2 s3]
  show ?thesis
    using a b v t1 t2 t3 s1 s2 s3 by blast
qed

text \<open>
  C7, as stated. At the bird whose species is the byte 0xFF, over the example table:
  the store returns the bird, but its JSON encoding reads back with the species U+FFFD
  (three bytes), not the bird; and the bird with species 0xFE has the very same
  encoding, so no reader can return both. And at the Crow record: over a database whose
  statements fail, \<open>CreateBird\<close> returns the error and \<open>GetBirds\<close> no sequence; over one
  where a later row does not scan, \<open>GetBirds\<close> returns no sequence although the Crow row
  was read; over one that returns no row, \<open>GetBirds\<close> returns the empty sequence.
\<close>

theorem roundtrip_ill_formed_counterexample:
  "fst (dbStore_CreateBird table_query \<lparr>db = []\<rparr> ill_formed_bird) = None
   \<and> fst (dbStore_GetBirds table_query (snd (dbStore_CreateBird table_query \<lparr>db = []\<rparr> ill_formed_bird)))
       = (Some [ill_formed_bird], None)
   \<and> unmarshalBird (encodeBird ill_formed_bird)
       = Some \<lparr>Species = [CHR 0xEF, CHR 0xBF, CHR 0xBD], Description = []\<rparr>
   \<and> unmarshalBird (encodeBird ill_formed_bird) \<noteq> Some ill_formed_bird
   \<and> encodeBird ill_formed_bird = encodeBird \<lparr>Species = [CHR 0xFE], Description = []\<rparr>
   \<and> fst (dbStore_CreateBird failing_query \<lparr>db = ()\<rparr> crow)
       = Some (Error ''pq: relation birds does not exist'')
   \<and> fst (dbStore_GetBirds failing_query (snd (dbStore_CreateBird failing_query \<lparr>db = ()\<rparr> crow)))
       = (None, Some (Error ''pq: relation birds does not exist''))
   \<and> fst (dbStore_CreateBird scan_error_query \<lparr>db = ()\<rparr> crow) = None
   \<and> fst (dbStore_GetBirds scan_error_query (snd (dbStore_CreateBird scan_error_query \<lparr>db = ()\<rparr> crow)))
       = (None, Some (Error ''converting NULL to string is unsupported''))
   \<and> fst (dbStore_CreateBird silent_query \<lparr>db = ()\<rparr> crow) = None
   \<and> fst (dbStore_GetBirds silent_query (snd (dbStore_CreateBird silent_query \<lparr>db = ()\<rparr> crow)))
       = (Some [], None)"
proof -
  have d: "unmarshalBird (encodeBird ill_formed_bird)
      = Some \<lparr>Species = [CHR 0xEF, CHR 0xBF, CHR 0xBD], Description = []\<rparr>"
    by (rule unmarshal_encodeBird_gen)
      (simp_all only: ill_formed_bird_def Bird.simps unquote_ill_formed unquote_empty)
  have e: "encodeString [CHR 0xFF] = encodeString [CHR 0xFE]"
    by (simp add: encodeString_def RuneError_def)
  have i: "table_query [] insert_sql [Species ill_formed_bird, Description ill_formed_bird]
      = (Inr [], [([CHR 0xFF], [])])"
    by (simp add: table_query_def ill_formed_bird_def)
  have s: "table_query [([CHR 0xFF], [])] select_sql [] = (Inr (map Inr [([CHR 0xFF], [])]), [([CHR 0xFF], [])])"
    by (simp add: table_query_def select_sql_def insert_sql_def)
  have f: "fst (dbStore_CreateBird failing_query \<lparr>db = ()\<rparr> crow)
       = Some (Error ''pq: relation birds does not exist'')"
    "fst (dbStore_GetBirds failing_query (snd (dbStore_CreateBird failing_query \<lparr>db = ()\<rparr> crow)))
       = (None, Some (Error ''pq: relation birds does not exist''))"
    by (simp_all add: dbStore_CreateBird_def dbStore_GetBirds_def failing_query_def)
  have g: "fst (dbStore_CreateBird scan_error_query \<lparr>db = ()\<rparr> crow) = None"
    "fst (dbStore_GetBirds scan_error_query (snd (dbStore_CreateBird scan_error_query \<lparr>db = ()\<rparr> crow)))
       = (None, Some (Error ''converting NULL to string is unsupported''))"
    "fst (dbStore_CreateBird silent_query \<lparr>db = ()\<rparr> crow) = None"
    "fst (dbStore_GetBirds silent_query (snd (dbStore_CreateBird silent_query \<lparr>db = ()\<rparr> crow)))
       = (Some [], None)"
    by (simp_all add: dbStore_CreateBird_def dbStore_GetBirds_def scan_error_query_def silent_query_def)
  show ?thesis
    using create_then_get [OF i s] f g
    by (simp add: d) (simp add: ill_formed_bird_def encodeBird_def e)
qed

subsection \<open>The installed store and the handlers\<close>

text \<open>
  C9. For every request and any two package states with the same list of birds, whatever
  store each holds (none, as under \<open>main\<close>, or any value installed with \<open>InitStore\<close>, of
  any implementation), each of the three handlers gives the same response and leaves
  the same list of birds.
\<close>

theorem handlers_ignore_store:
  "birds g1 = birds g2 \<Longrightarrow>
     fst (serve handler r g1) = fst (serve handler r g2)
   \<and> birds (snd (serve handler r g1)) = birds (snd (serve handler r g2))
   \<and> fst (serve getBirdHandler r g1) = fst (serve getBirdHandler r g2)
   \<and> birds (snd (serve getBirdHandler r g1)) = birds (snd (serve getBirdHandler r g2))
   \<and> fst (serve createBirdHandler r g1) = fst (serve createBirdHandler r g2)
   \<and> birds (snd (serve createBirdHandler r g1)) = birds (snd (serve createBirdHandler r g2))"
  by (simp add: serve_def handler_def getBirdHandler_def getBirdHandler_with_def createBirdHandler_def
      Println_Error_def Let_def split: sum.split)

theorem handlers_ignore_store_witness:
  "birds (InitStore (Some \<lparr>db = [(''Crow'', ''Black bird'')]\<rparr>) world_nil) = birds (InitStore None world_nil)
   \<and> store (InitStore (Some \<lparr>db = [(''Crow'', ''Black bird'')]\<rparr>) world_nil) \<noteq> store (InitStore None world_nil)
   \<and> fst (serve handler crow_request (InitStore (Some \<lparr>db = [(''Crow'', ''Black bird'')]\<rparr>) world_nil))
       = fst (serve handler crow_request (InitStore None world_nil))
   \<and> fst (serve getBirdHandler crow_request (InitStore (Some \<lparr>db = [(''Crow'', ''Black bird'')]\<rparr>) world_nil))
       = fst (serve getBirdHandler crow_request (InitStore None world_nil))
   \<and> fst (serve createBirdHandler crow_request (InitStore (Some \<lparr>db = [(''Crow'', ''Black bird'')]\<rparr>) world_nil))
       = fst (serve createBirdHandler crow_request (InitStore None world_nil))
   \<and> birds (snd (serve createBirdHandler crow_request (InitStore (Some \<lparr>db = [(''Crow'', ''Black bird'')]\<rparr>) world_nil)))
       = birds (snd (serve createBirdHandler crow_request (InitStore None world_nil)))
   \<and> StatusCode (fst (serve createBirdHandler crow_request (InitStore None world_nil))) = 302"
proof -
  have b: "birds (InitStore (Some \<lparr>db = [(''Crow'', ''Black bird'')]\<rparr>) world_nil)
      = birds (InitStore None world_nil)"
    by (simp add: InitStore_def)
  have n: "store (InitStore (Some \<lparr>db = [(''Crow'', ''Black bird'')]\<rparr>) world_nil)
      \<noteq> store (InitStore None world_nil)"
    by (simp add: InitStore_def world_nil_def)
  have p: "ParseForm crow_request = Inr crow_form"
    by (simp add: crow_request_def)
  have c: "StatusCode (fst (serve createBirdHandler crow_request (InitStore None world_nil))) = 302"
    by (simp add: serve_def createBirdHandler_def p finish_Redirect_new StatusFound_def Let_def)
  show ?thesis
    using handlers_ignore_store [OF b, of crow_request] b n c by simp
qed

end
